theory Spec2Isabelle
  imports Main "HOL-Library.Word"
begin

section \<open>The setuid wrappers of jantman/misc-scripts\<close>

text \<open>
  The repository holds three small C programs: \<^verbatim>\<open>cmd-wrapper.c\<close> (the dual-mode
  dispatcher: pre and post backup scripts), \<^verbatim>\<open>rsync-wrapper.c\<close> (the single-action
  dispatcher) and \<^verbatim>\<open>print-cmd-wrapper.c\<close> (the print variant). Each is one
  \<^verbatim>\<open>main\<close> that talks to the operating system and the C library and ends in
  \<^verbatim>\<open>exit\<close> or in a successful \<^verbatim>\<open>execl\<close>.

  A run of \<^verbatim>\<open>main\<close> is modelled as a function from what the surroundings answer
  (the record \<open>os\<close>) and \<^verbatim>\<open>argc\<close> to the way the process ends, together with
  the process state at that moment: the sequence of library and system calls made so far,
  in program order, and the global variable \<^verbatim>\<open>gid\<close>.
\<close>

subsection \<open>Calls, outcomes and the surroundings\<close>

type_synonym gid_t = "32 word"
type_synonym uid_t = "32 word"

text \<open>
  One constructor for each external function the three programs call, with the arguments
  the call is given. A \<^verbatim>\<open>char *\<close> that may be \<^verbatim>\<open>NULL\<close> is a
  \<open>string option\<close>, \<open>None\<close> being the null pointer.
\<close>

datatype call =
    Getenv string
  | Getgid
  | Getuid
  | Setegid gid_t
  | Seteuid uid_t
  | Setgid gid_t
  | Setuid uid_t
  | Strncmp "string option" string nat
  | Printf string "string option list"
  | Perror string
  | Execl string "string list"
  | Exit int

text \<open>
  How a run ends: \<^verbatim>\<open>exit(n)\<close>; a successful \<^verbatim>\<open>execl\<close>, after which the
  process image is the named program with the given argument vector; or a read through the
  null pointer, whose behaviour C leaves undefined.
\<close>

datatype outcome =
    Exited int
  | Image_Replaced string "string list"
  | Null_Dereference

text \<open>
  Everything the program reads from outside: the environment, the real group and user id
  of the process, the value each privilege-changing call returns (it may depend on the
  calls made before it), and whether \<^verbatim>\<open>execl\<close> of a path succeeds.
\<close>

record os =
  environ :: "string \<Rightarrow> string option"
  real_gid :: gid_t
  real_uid :: uid_t
  setid_ret :: "call list \<Rightarrow> call \<Rightarrow> int"
  execl_ok :: "string \<Rightarrow> bool"

text \<open>
  The process state: the calls made so far and the global \<^verbatim>\<open>int gid\<close>, which C
  initialises to 0.
\<close>

record proc =
  calls :: "call list"
  gid :: int

definition proc_start :: proc where
  "proc_start = \<lparr>calls = [], gid = 0\<rparr>"

definition record_call :: "call \<Rightarrow> proc \<Rightarrow> proc" where
  "record_call c s = s\<lparr>calls := calls s @ [c]\<rparr>"

subsection \<open>The external functions\<close>

definition getenv :: "os \<Rightarrow> string \<Rightarrow> proc \<Rightarrow> string option \<times> proc" where
  "getenv os name s = (environ os name, record_call (Getenv name) s)"

definition getgid :: "os \<Rightarrow> proc \<Rightarrow> gid_t \<times> proc" where
  "getgid os s = (real_gid os, record_call Getgid s)"

definition getuid :: "os \<Rightarrow> proc \<Rightarrow> uid_t \<times> proc" where
  "getuid os s = (real_uid os, record_call Getuid s)"

definition setegid :: "os \<Rightarrow> gid_t \<Rightarrow> proc \<Rightarrow> int \<times> proc" where
  "setegid os g s = (setid_ret os (calls s) (Setegid g), record_call (Setegid g) s)"

definition seteuid :: "os \<Rightarrow> uid_t \<Rightarrow> proc \<Rightarrow> int \<times> proc" where
  "seteuid os u s = (setid_ret os (calls s) (Seteuid u), record_call (Seteuid u) s)"

definition setgid :: "os \<Rightarrow> gid_t \<Rightarrow> proc \<Rightarrow> int \<times> proc" where
  "setgid os g s = (setid_ret os (calls s) (Setgid g), record_call (Setgid g) s)"

definition setuid :: "os \<Rightarrow> uid_t \<Rightarrow> proc \<Rightarrow> int \<times> proc" where
  "setuid os u s = (setid_ret os (calls s) (Setuid u), record_call (Setuid u) s)"

text \<open>
  \<^verbatim>\<open>printf\<close> and \<^verbatim>\<open>perror\<close> are recorded with the arguments they are given; no
  program uses what they return. A \<^verbatim>\<open>%s\<close> argument is a pointer and is passed on as it
  is, null or not: what is written for a null pointer is the C library's business (glibc
  writes \<^verbatim>\<open>(null)\<close>), and the call returns either way.
\<close>

definition printf :: "string \<Rightarrow> string option list \<Rightarrow> proc \<Rightarrow> proc" where
  "printf fmt args s = record_call (Printf fmt args) s"

definition perror :: "string \<Rightarrow> proc \<Rightarrow> proc" where
  "perror msg s = record_call (Perror msg) s"

definition exit :: "int \<Rightarrow> proc \<Rightarrow> outcome \<times> proc" where
  "exit n s = (Exited n, record_call (Exit n) s)"

text \<open>
  \<^verbatim>\<open>execl\<close> returns only when it fails, and then it returns -1: \<open>None\<close> is the
  call that does not return.
\<close>

definition execl :: "os \<Rightarrow> string \<Rightarrow> string list \<Rightarrow> proc \<Rightarrow> int option \<times> proc" where
  "execl os path args s =
     (if execl_ok os path then None else Some (- 1), record_call (Execl path args) s)"

text \<open>
  \<^verbatim>\<open>strncmp(a, b, n)\<close> on two C strings: at most \<open>n\<close> characters are compared,
  as unsigned bytes, and the comparison stops at the end of either string.
\<close>

fun strncmp :: "string \<Rightarrow> string \<Rightarrow> nat \<Rightarrow> int" where
  "strncmp a b 0 = 0"
| "strncmp [] [] (Suc n) = 0"
| "strncmp [] (y # b) (Suc n) = - of_char y"
| "strncmp (x # a) [] (Suc n) = of_char x"
| "strncmp (x # a) (y # b) (Suc n) =
     (if x = y then strncmp a b n else of_char x - of_char y)"

text \<open>
  The call as the program makes it: the first argument is a pointer that may be null, and
  \<^verbatim>\<open>strncmp\<close> reads through it. \<open>None\<close> is the read through the null pointer.
\<close>

definition strncmp_call :: "string option \<Rightarrow> string \<Rightarrow> nat \<Rightarrow> proc \<Rightarrow> int option \<times> proc" where
  "strncmp_call p b n s =
     (case p of None \<Rightarrow> None | Some a \<Rightarrow> Some (strncmp a b n),
      record_call (Strncmp p b n) s)"

subsection \<open>print-cmd-wrapper.c\<close>

definition print_cmd_wrapper_main :: "os \<Rightarrow> int \<Rightarrow> outcome \<times> proc" where
  "print_cmd_wrapper_main os argc =
     (let (origcmd, s1) = getenv os ''SSH_ORIGINAL_COMMAND'' proc_start;
          s2 = printf ''Original Command:%s\<newline>'' [origcmd] s1
      in exit 0 s2)"

subsection \<open>rsync-wrapper.c\<close>

definition rsync_argv :: "string list" where
  "rsync_argv = [''rsync'', ''--server'', ''--sender'', ''-vlogDtprRe.iLsf'',
                 ''--numeric-ids'', ''.'', ''/'']"

definition rsync_wrapper_main :: "os \<Rightarrow> int \<Rightarrow> outcome \<times> proc" where
  "rsync_wrapper_main os argc =
     (let (g, s1) = getgid os proc_start;
          s2 = s1\<lparr>gid := sint g\<rparr>;
          (g', s3) = getgid os s2;
          (_, s4) = setegid os g' s3;
          (u, s5) = getuid os s4;
          (_, s6) = seteuid os u s5
      in if gid s6 \<noteq> 502 then
           exit 1 (printf ''User Not Authorized! Exiting...\<newline>'' [] s6)
         else if argc \<noteq> 1 then
           exit 1 (printf ''Usage: rsync-wrapper\<newline>'' [] s6)
         else
           (let (_, s7) = setegid os 0 s6;
                (_, s8) = seteuid os 0 s7;
                (_, s9) = setgid os 0 s8;
                (_, s10) = setuid os 0 s9
            in case execl os ''/usr/bin/rsync'' rsync_argv s10 of
                 (None, s11) \<Rightarrow> (Image_Replaced ''/usr/bin/rsync'' rsync_argv, s11)
               | (Some r, s11) \<Rightarrow>
                   exit 0 (if r < 0 then perror ''Execl:'' s11 else s11)))"

subsection \<open>cmd-wrapper.c\<close>

definition cmd_wrapper_main :: "os \<Rightarrow> int \<Rightarrow> outcome \<times> proc" where
  "cmd_wrapper_main os argc =
     (let (origcmd, s0) = getenv os ''SSH_ORIGINAL_COMMAND'' proc_start;
          (g, s1) = getgid os s0;
          s2 = s1\<lparr>gid := sint g\<rparr>;
          (g', s3) = getgid os s2;
          (_, s4) = setegid os g' s3;
          (u, s5) = getuid os s4;
          (_, s6) = seteuid os u s5
      in if gid s6 \<noteq> 502 then
           exit 1 (printf ''User Not Authorized! Exiting...\<newline>'' [] s6)
         else if argc \<noteq> 1 then
           exit 1 (printf ''Usage: cmd-wrapper [pre|post]\<newline>'' [] s6)
         else
           (let (_, s7) = setegid os 0 s6;
                (_, s8) = seteuid os 0 s7;
                (_, s9) = setgid os 0 s8;
                (_, s10) = setuid os 0 s9
            in case strncmp_call origcmd ''pre'' 3 s10 of
                 (None, s11) \<Rightarrow> (Null_Dereference, s11)
               | (Some c, s11) \<Rightarrow>
                   if c = 0 then
                     (case execl os ''/root/bin/rsnapshot-pre.sh'' [''rsnapshot-pre.sh''] s11 of
                        (None, s12) \<Rightarrow>
                          (Image_Replaced ''/root/bin/rsnapshot-pre.sh'' [''rsnapshot-pre.sh''], s12)
                      | (Some r, s12) \<Rightarrow>
                          exit 0 (if r < 0 then perror ''Execl:'' s12 else s12))
                   else
                     (case strncmp_call origcmd ''post'' 4 s11 of
                        (None, s12) \<Rightarrow> (Null_Dereference, s12)
                      | (Some c', s12) \<Rightarrow>
                          if c' = 0 then
                            (case execl os ''/root/bin/rsnapshot-post.sh'' [''rsnapshot-post.sh''] s12 of
                               (None, s13) \<Rightarrow>
                                 (Image_Replaced ''/root/bin/rsnapshot-post.sh''
                                    [''rsnapshot-post.sh''], s13)
                             | (Some r, s13) \<Rightarrow>
                                 exit 0 (if r < 0 then perror ''Execl:'' s13 else s13))
                          else
                            exit 1
                              (printf ''Usage: COMMAND [pre|post]\<newline>'' []
                                 (printf ''ERROR: Invalid command: %s\<newline>'' [origcmd] s12)))))"

subsection \<open>Reading a run\<close>

text \<open>
  The calls that change the identity of the process, the prefix comparisons on the command
  string, and the attempts to replace the process image.
\<close>

fun is_setid :: "call \<Rightarrow> bool" where
  "is_setid (Setegid g) = True"
| "is_setid (Seteuid u) = True"
| "is_setid (Setgid g) = True"
| "is_setid (Setuid u) = True"
| "is_setid c = False"

fun is_strncmp :: "call \<Rightarrow> bool" where
  "is_strncmp (Strncmp p b n) = True"
| "is_strncmp c = False"

fun is_execl :: "call \<Rightarrow> bool" where
  "is_execl (Execl path args) = True"
| "is_execl c = False"

text \<open>
  Lines 40 to 42 of \<^verbatim>\<open>cmd-wrapper.c\<close> (32 to 34 of \<^verbatim>\<open>rsync-wrapper.c\<close>), the drop
  to the real identity, and lines 60 to 63 (52 to 55), the return to root, as the calls they
  make.
\<close>

definition drop_calls :: "os \<Rightarrow> call list" where
  "drop_calls os = [Getgid, Getgid, Setegid (real_gid os), Getuid, Seteuid (real_uid os)]"

definition escalate_calls :: "call list" where
  "escalate_calls = [Setegid 0, Seteuid 0, Setgid 0, Setuid 0]"

text \<open>
  Concrete surroundings for the examples: real group and user id, the value of
  \<^verbatim>\<open>SSH_ORIGINAL_COMMAND\<close> (\<open>None\<close> when it is not set), and whether
  \<^verbatim>\<open>execl\<close> succeeds; every privilege-changing call returns 0.
\<close>

definition os_of :: "gid_t \<Rightarrow> uid_t \<Rightarrow> string option \<Rightarrow> bool \<Rightarrow> os" where
  "os_of g u cmd ok =
     \<lparr>environ = (\<lambda>name. if name = ''SSH_ORIGINAL_COMMAND'' then cmd else None),
      real_gid = g, real_uid = u, setid_ret = (\<lambda>t c. 0), execl_ok = (\<lambda>path. ok)\<rparr>"

section \<open>Auxiliary facts\<close>

lemma of_char_eq_0: "(of_char y :: int) = 0 \<longleftrightarrow> y = CHR 0x00"
proof -
  have "(of_char y :: int) = of_char (CHR 0x00) \<longleftrightarrow> y = CHR 0x00"
    by (rule of_char_eq_iff)
  then show ?thesis by simp
qed

lemma strncmp_eq_0_iff:
  "CHR 0x00 \<notin> set b \<Longrightarrow> n \<le> length b \<Longrightarrow> strncmp a b n = 0 \<longleftrightarrow> take n a = take n b"
proof (induction a b n rule: strncmp.induct)
  case (3 y b n)
  then have "y \<noteq> CHR 0x00" by auto
  then show ?case by (simp add: of_char_eq_0)
qed simp_all

lemma strncmp_pre: "strncmp s ''pre'' 3 = 0 \<longleftrightarrow> take 3 s = ''pre''"
  using strncmp_eq_0_iff [of "''pre''" 3 s] by simp

lemma strncmp_post: "strncmp s ''post'' 4 = 0 \<longleftrightarrow> take 4 s = ''post''"
  using strncmp_eq_0_iff [of "''post''" 4 s] by simp

lemma sint_eq_502: "sint (g :: 32 word) = 502 \<longleftrightarrow> g = 502"
proof
  assume "sint g = 502"
  then have "word_of_int (sint g) = (word_of_int 502 :: 32 word)" by simp
  then show "g = 502" by simp
next
  assume "g = 502"
  then show "sint g = 502" by simp
qed

lemmas run_defs =
  getenv_def getgid_def getuid_def setegid_def seteuid_def setgid_def setuid_def
  printf_def perror_def exit_def execl_def strncmp_call_def record_call_def proc_start_def

lemmas phase_defs = drop_calls_def escalate_calls_def

section \<open>The runs of the three programs\<close>

text \<open>
  Each path through \<^verbatim>\<open>main\<close> in closed form: the way the run ends and every call it
  makes, in order.
\<close>

lemma cmd_unauthorized:
  "real_gid os \<noteq> 502 \<Longrightarrow>
   cmd_wrapper_main os argc =
     (Exited 1,
      \<lparr>calls = Getenv ''SSH_ORIGINAL_COMMAND'' # drop_calls os @
                [Printf ''User Not Authorized! Exiting...\<newline>'' [], Exit 1],
       gid = sint (real_gid os)\<rparr>)"
  by (simp add: cmd_wrapper_main_def run_defs phase_defs sint_eq_502)

lemma cmd_usage:
  "real_gid os = 502 \<Longrightarrow> argc \<noteq> 1 \<Longrightarrow>
   cmd_wrapper_main os argc =
     (Exited 1,
      \<lparr>calls = Getenv ''SSH_ORIGINAL_COMMAND'' # drop_calls os @
                [Printf ''Usage: cmd-wrapper [pre|post]\<newline>'' [], Exit 1],
       gid = 502\<rparr>)"
  by (simp add: cmd_wrapper_main_def run_defs phase_defs)

lemma cmd_null:
  "real_gid os = 502 \<Longrightarrow> environ os ''SSH_ORIGINAL_COMMAND'' = None \<Longrightarrow>
   cmd_wrapper_main os 1 =
     (Null_Dereference,
      \<lparr>calls = Getenv ''SSH_ORIGINAL_COMMAND'' # drop_calls os @ escalate_calls @
                [Strncmp None ''pre'' 3],
       gid = 502\<rparr>)"
  by (simp add: cmd_wrapper_main_def run_defs phase_defs)

lemma cmd_pre:
  "real_gid os = 502 \<Longrightarrow> environ os ''SSH_ORIGINAL_COMMAND'' = Some s \<Longrightarrow>
   take 3 s = ''pre'' \<Longrightarrow>
   cmd_wrapper_main os 1 =
     (if execl_ok os ''/root/bin/rsnapshot-pre.sh''
      then (Image_Replaced ''/root/bin/rsnapshot-pre.sh'' [''rsnapshot-pre.sh''],
            \<lparr>calls = Getenv ''SSH_ORIGINAL_COMMAND'' # drop_calls os @ escalate_calls @
                      [Strncmp (Some s) ''pre'' 3,
                       Execl ''/root/bin/rsnapshot-pre.sh'' [''rsnapshot-pre.sh'']],
             gid = 502\<rparr>)
      else (Exited 0,
            \<lparr>calls = Getenv ''SSH_ORIGINAL_COMMAND'' # drop_calls os @ escalate_calls @
                      [Strncmp (Some s) ''pre'' 3,
                       Execl ''/root/bin/rsnapshot-pre.sh'' [''rsnapshot-pre.sh''],
                       Perror ''Execl:'', Exit 0],
             gid = 502\<rparr>))"
  by (simp add: cmd_wrapper_main_def run_defs phase_defs strncmp_pre)

lemma cmd_post:
  "real_gid os = 502 \<Longrightarrow> environ os ''SSH_ORIGINAL_COMMAND'' = Some s \<Longrightarrow>
   take 3 s \<noteq> ''pre'' \<Longrightarrow> take 4 s = ''post'' \<Longrightarrow>
   cmd_wrapper_main os 1 =
     (if execl_ok os ''/root/bin/rsnapshot-post.sh''
      then (Image_Replaced ''/root/bin/rsnapshot-post.sh'' [''rsnapshot-post.sh''],
            \<lparr>calls = Getenv ''SSH_ORIGINAL_COMMAND'' # drop_calls os @ escalate_calls @
                      [Strncmp (Some s) ''pre'' 3, Strncmp (Some s) ''post'' 4,
                       Execl ''/root/bin/rsnapshot-post.sh'' [''rsnapshot-post.sh'']],
             gid = 502\<rparr>)
      else (Exited 0,
            \<lparr>calls = Getenv ''SSH_ORIGINAL_COMMAND'' # drop_calls os @ escalate_calls @
                      [Strncmp (Some s) ''pre'' 3, Strncmp (Some s) ''post'' 4,
                       Execl ''/root/bin/rsnapshot-post.sh'' [''rsnapshot-post.sh''],
                       Perror ''Execl:'', Exit 0],
             gid = 502\<rparr>))"
  by (simp add: cmd_wrapper_main_def run_defs phase_defs strncmp_pre strncmp_post)

lemma cmd_invalid:
  "real_gid os = 502 \<Longrightarrow> environ os ''SSH_ORIGINAL_COMMAND'' = Some s \<Longrightarrow>
   take 3 s \<noteq> ''pre'' \<Longrightarrow> take 4 s \<noteq> ''post'' \<Longrightarrow>
   cmd_wrapper_main os 1 =
     (Exited 1,
      \<lparr>calls = Getenv ''SSH_ORIGINAL_COMMAND'' # drop_calls os @ escalate_calls @
                [Strncmp (Some s) ''pre'' 3, Strncmp (Some s) ''post'' 4,
                 Printf ''ERROR: Invalid command: %s\<newline>'' [Some s],
                 Printf ''Usage: COMMAND [pre|post]\<newline>'' [], Exit 1],
       gid = 502\<rparr>)"
  by (simp add: cmd_wrapper_main_def run_defs phase_defs strncmp_pre strncmp_post)

lemma rsync_unauthorized:
  "real_gid os \<noteq> 502 \<Longrightarrow>
   rsync_wrapper_main os argc =
     (Exited 1,
      \<lparr>calls = drop_calls os @ [Printf ''User Not Authorized! Exiting...\<newline>'' [], Exit 1],
       gid = sint (real_gid os)\<rparr>)"
  by (simp add: rsync_wrapper_main_def run_defs phase_defs sint_eq_502)

lemma rsync_usage:
  "real_gid os = 502 \<Longrightarrow> argc \<noteq> 1 \<Longrightarrow>
   rsync_wrapper_main os argc =
     (Exited 1,
      \<lparr>calls = drop_calls os @ [Printf ''Usage: rsync-wrapper\<newline>'' [], Exit 1],
       gid = 502\<rparr>)"
  by (simp add: rsync_wrapper_main_def run_defs phase_defs)

lemma rsync_exec:
  "real_gid os = 502 \<Longrightarrow>
   rsync_wrapper_main os 1 =
     (if execl_ok os ''/usr/bin/rsync''
      then (Image_Replaced ''/usr/bin/rsync'' rsync_argv,
            \<lparr>calls = drop_calls os @ escalate_calls @ [Execl ''/usr/bin/rsync'' rsync_argv],
             gid = 502\<rparr>)
      else (Exited 0,
            \<lparr>calls = drop_calls os @ escalate_calls @
                      [Execl ''/usr/bin/rsync'' rsync_argv, Perror ''Execl:'', Exit 0],
             gid = 502\<rparr>))"
  by (simp add: rsync_wrapper_main_def run_defs phase_defs)

section \<open>What a run does not depend on\<close>

text \<open>
  The values the privilege-changing calls return are discarded by both dispatchers, and
  \<^verbatim>\<open>rsync-wrapper\<close> never reads the environment.
\<close>

lemma drop_calls_setid_ret: "drop_calls (os\<lparr>setid_ret := r\<rparr>) = drop_calls os"
  by (simp add: drop_calls_def)

lemma drop_calls_environ: "drop_calls (os\<lparr>environ := e\<rparr>) = drop_calls os"
  by (simp add: drop_calls_def)

lemma cmd_setid_ret_ignored:
  "cmd_wrapper_main (os\<lparr>setid_ret := r\<rparr>) argc = cmd_wrapper_main os argc"
proof (cases "real_gid os = 502")
  case False
  then show ?thesis by (simp add: cmd_unauthorized drop_calls_setid_ret)
next
  case gid_ok: True
  show ?thesis
  proof (cases "argc = 1")
    case False
    with gid_ok show ?thesis by (simp add: cmd_usage drop_calls_setid_ret)
  next
    case True
    show ?thesis
    proof (cases "environ os ''SSH_ORIGINAL_COMMAND''")
      case None
      with gid_ok True show ?thesis by (simp add: cmd_null drop_calls_setid_ret)
    next
      case (Some s)
      show ?thesis
      proof (cases "take 3 s = ''pre''")
        case pre: True
        with gid_ok True Some show ?thesis by (simp add: cmd_pre drop_calls_setid_ret)
      next
        case False
        with gid_ok True Some show ?thesis
          by (cases "take 4 s = ''post''")
            (simp_all add: cmd_post cmd_invalid drop_calls_setid_ret)
      qed
    qed
  qed
qed

lemma rsync_setid_ret_ignored:
  "rsync_wrapper_main (os\<lparr>setid_ret := r\<rparr>) argc = rsync_wrapper_main os argc"
proof (cases "real_gid os = 502")
  case False
  then show ?thesis by (simp add: rsync_unauthorized drop_calls_setid_ret)
next
  case True
  then show ?thesis
    by (cases "argc = 1") (simp_all add: rsync_usage rsync_exec drop_calls_setid_ret)
qed

lemma rsync_environ_ignored:
  "rsync_wrapper_main (os\<lparr>environ := e\<rparr>) argc = rsync_wrapper_main os argc"
proof (cases "real_gid os = 502")
  case False
  then show ?thesis by (simp add: rsync_unauthorized drop_calls_environ)
next
  case True
  then show ?thesis
    by (cases "argc = 1") (simp_all add: rsync_usage rsync_exec drop_calls_environ)
qed

text \<open>
  Every run of \<^verbatim>\<open>cmd-wrapper\<close> that passes both checks starts the same way, and
  changes no identity afterwards.
\<close>

lemma cmd_reaches_escalation:
  assumes "real_gid os = 502"
  shows "\<exists>rest. calls (snd (cmd_wrapper_main os 1)) =
           Getenv ''SSH_ORIGINAL_COMMAND'' # drop_calls os @ escalate_calls @ rest \<and>
           filter is_setid rest = []"
proof (cases "environ os ''SSH_ORIGINAL_COMMAND''")
  case None
  with assms show ?thesis by (simp add: cmd_null)
next
  case (Some s)
  show ?thesis
  proof (cases "take 3 s = ''pre''")
    case True
    with assms Some show ?thesis by (simp add: cmd_pre)
  next
    case False
    with assms Some show ?thesis
      by (cases "take 4 s = ''post''") (simp_all add: cmd_post cmd_invalid)
  qed
qed

lemma cmd_strncmp_calls:
  "filter is_strncmp (calls (snd (cmd_wrapper_main os argc))) \<in>
     {[], [Strncmp (environ os ''SSH_ORIGINAL_COMMAND'') ''pre'' 3],
      [Strncmp (environ os ''SSH_ORIGINAL_COMMAND'') ''pre'' 3,
       Strncmp (environ os ''SSH_ORIGINAL_COMMAND'') ''post'' 4]}"
proof (cases "real_gid os = 502")
  case False
  then show ?thesis by (simp add: cmd_unauthorized phase_defs)
next
  case gid_ok: True
  show ?thesis
  proof (cases "argc = 1")
    case False
    with gid_ok show ?thesis by (simp add: cmd_usage phase_defs)
  next
    case True
    show ?thesis
    proof (cases "environ os ''SSH_ORIGINAL_COMMAND''")
      case None
      with gid_ok True show ?thesis by (simp add: cmd_null phase_defs)
    next
      case (Some s)
      show ?thesis
      proof (cases "take 3 s = ''pre''")
        case pre: True
        with gid_ok True Some show ?thesis by (simp add: cmd_pre phase_defs)
      next
        case False
        with gid_ok True Some show ?thesis
          by (cases "take 4 s = ''post''") (simp_all add: cmd_post cmd_invalid phase_defs)
      qed
    qed
  qed
qed

section \<open>The print variant\<close>

text \<open>
  C10. \<^verbatim>\<open>print-cmd-wrapper\<close> makes no authorization check and no privilege
  transition: whatever the real group id, \<^verbatim>\<open>argc\<close> and the environment, its run is
  the lookup of \<^verbatim>\<open>SSH_ORIGINAL_COMMAND\<close>, one \<^verbatim>\<open>printf\<close> of the value found and
  \<^verbatim>\<open>exit(0)\<close>; no identity is read or set and nothing is executed. When the variable
  is not set the pointer handed to \<^verbatim>\<open>printf\<close> is null, and what is written for it is
  the C library's choice (glibc writes \<^verbatim>\<open>(null)\<close>); the run goes on to \<^verbatim>\<open>exit(0)\<close>
  all the same.
\<close>

theorem print_cmd_wrapper_only_prints:
  "print_cmd_wrapper_main os argc =
     (Exited 0,
      \<lparr>calls = [Getenv ''SSH_ORIGINAL_COMMAND'',
                 Printf ''Original Command:%s\<newline>'' [environ os ''SSH_ORIGINAL_COMMAND''],
                 Exit 0],
       gid = 0\<rparr>)"
  by (simp add: print_cmd_wrapper_main_def run_defs)

section \<open>Authorization\<close>

text \<open>
  C4. For every real group id other than 502, both dispatchers end in \<^verbatim>\<open>exit(1)\<close>
  whatever \<^verbatim>\<open>argc\<close> and the environment are; the run makes no prefix comparison on the
  command string and no \<^verbatim>\<open>execl\<close> call.
\<close>

theorem unauthorized_gid_exits_1:
  "real_gid os \<noteq> 502 \<Longrightarrow>
   fst (cmd_wrapper_main os argc) = Exited 1 \<and>
   filter is_strncmp (calls (snd (cmd_wrapper_main os argc))) = [] \<and>
   filter is_execl (calls (snd (cmd_wrapper_main os argc))) = [] \<and>
   fst (rsync_wrapper_main os argc) = Exited 1 \<and>
   filter is_strncmp (calls (snd (rsync_wrapper_main os argc))) = [] \<and>
   filter is_execl (calls (snd (rsync_wrapper_main os argc))) = []"
  by (simp add: cmd_unauthorized rsync_unauthorized phase_defs)

theorem unauthorized_gid_exits_1_witness:
  "real_gid (os_of 999 1000 (Some ''pre'') True) \<noteq> 502 \<and>
   fst (cmd_wrapper_main (os_of 999 1000 (Some ''pre'') True) 1) = Exited 1 \<and>
   filter is_strncmp (calls (snd (cmd_wrapper_main (os_of 999 1000 (Some ''pre'') True) 1))) = [] \<and>
   filter is_execl (calls (snd (cmd_wrapper_main (os_of 999 1000 (Some ''pre'') True) 1))) = [] \<and>
   fst (rsync_wrapper_main (os_of 999 1000 (Some ''pre'') True) 1) = Exited 1 \<and>
   filter is_strncmp (calls (snd (rsync_wrapper_main (os_of 999 1000 (Some ''pre'') True) 1))) = [] \<and>
   filter is_execl (calls (snd (rsync_wrapper_main (os_of 999 1000 (Some ''pre'') True) 1))) = []"
proof -
  have h: "real_gid (os_of 999 1000 (Some ''pre'') True) \<noteq> 502"
    by (simp add: os_of_def)
  show ?thesis
    using h unauthorized_gid_exits_1 [OF h, of 1] by simp
qed

section \<open>The order of the privilege changes\<close>

text \<open>
  C8. A run reaches the return to root when the real group id is 502 and \<^verbatim>\<open>argc\<close> is
  1. In every such run of either dispatcher the privilege-changing calls are, in order, the
  two of the drop and then \<^verbatim>\<open>setegid(0)\<close>, \<^verbatim>\<open>seteuid(0)\<close>, \<^verbatim>\<open>setgid(0)\<close>,
  \<^verbatim>\<open>setuid(0)\<close>, and no other.
\<close>

theorem reescalation_order:
  "real_gid os = 502 \<Longrightarrow>
   filter is_setid (calls (snd (cmd_wrapper_main os 1))) =
     [Setegid (real_gid os), Seteuid (real_uid os),
      Setegid 0, Seteuid 0, Setgid 0, Setuid 0] \<and>
   filter is_setid (calls (snd (rsync_wrapper_main os 1))) =
     [Setegid (real_gid os), Seteuid (real_uid os),
      Setegid 0, Seteuid 0, Setgid 0, Setuid 0]"
proof -
  assume g: "real_gid os = 502"
  from cmd_reaches_escalation [OF g] obtain rest where
    "calls (snd (cmd_wrapper_main os 1)) =
       Getenv ''SSH_ORIGINAL_COMMAND'' # drop_calls os @ escalate_calls @ rest"
    and "filter is_setid rest = []"
    by blast
  then have "filter is_setid (calls (snd (cmd_wrapper_main os 1))) =
     [Setegid (real_gid os), Seteuid (real_uid os),
      Setegid 0, Seteuid 0, Setgid 0, Setuid 0]"
    by (simp add: phase_defs)
  moreover from g have "filter is_setid (calls (snd (rsync_wrapper_main os 1))) =
     [Setegid (real_gid os), Seteuid (real_uid os),
      Setegid 0, Seteuid 0, Setgid 0, Setuid 0]"
    by (simp add: rsync_exec phase_defs)
  ultimately show ?thesis by simp
qed

theorem reescalation_order_witness:
  "real_gid (os_of 502 1000 (Some ''post'') True) = 502 \<and>
   filter is_setid (calls (snd (cmd_wrapper_main (os_of 502 1000 (Some ''post'') True) 1))) =
     [Setegid 502, Seteuid 1000, Setegid 0, Seteuid 0, Setgid 0, Setuid 0] \<and>
   filter is_setid (calls (snd (rsync_wrapper_main (os_of 502 1000 (Some ''post'') True) 1))) =
     [Setegid 502, Seteuid 1000, Setegid 0, Seteuid 0, Setgid 0, Setuid 0]"
proof -
  have h: "real_gid (os_of 502 1000 (Some ''post'') True) = 502"
    by (simp add: os_of_def)
  show ?thesis
    using h reescalation_order [OF h] by (simp add: os_of_def)
qed

section \<open>Selecting the action\<close>

text \<open>
  C6. With real group id 502 and \<^verbatim>\<open>argc\<close> 1, the command \<^verbatim>\<open>pre\<close> and every
  command that begins with \<^verbatim>\<open>pre\<close> selects the pre action and no other: the only
  prefix comparison of the run is the one against \<^verbatim>\<open>pre\<close>, the only \<^verbatim>\<open>execl\<close>
  call is that of \<^verbatim>\<open>/root/bin/rsnapshot-pre.sh\<close> with the argument vector
  \<^verbatim>\<open>rsnapshot-pre.sh\<close> alone, and when that call succeeds the process image is this
  program. In every run whatsoever the comparison against \<^verbatim>\<open>pre\<close> comes first: the
  comparisons made are none, the one against \<^verbatim>\<open>pre\<close>, or the one against
  \<^verbatim>\<open>pre\<close> followed by the one against \<^verbatim>\<open>post\<close>.
\<close>

theorem pre_prefix_selects_pre_action:
  "real_gid os = 502 \<Longrightarrow> environ os ''SSH_ORIGINAL_COMMAND'' = Some (''pre'' @ t) \<Longrightarrow>
   filter is_strncmp (calls (snd (cmd_wrapper_main os 1))) =
     [Strncmp (Some (''pre'' @ t)) ''pre'' 3] \<and>
   filter is_execl (calls (snd (cmd_wrapper_main os 1))) =
     [Execl ''/root/bin/rsnapshot-pre.sh'' [''rsnapshot-pre.sh'']] \<and>
   (execl_ok os ''/root/bin/rsnapshot-pre.sh'' \<longrightarrow>
      fst (cmd_wrapper_main os 1) =
        Image_Replaced ''/root/bin/rsnapshot-pre.sh'' [''rsnapshot-pre.sh'']) \<and>
   filter is_strncmp (calls (snd (cmd_wrapper_main os' argc'))) \<in>
     {[], [Strncmp (environ os' ''SSH_ORIGINAL_COMMAND'') ''pre'' 3],
      [Strncmp (environ os' ''SSH_ORIGINAL_COMMAND'') ''pre'' 3,
       Strncmp (environ os' ''SSH_ORIGINAL_COMMAND'') ''post'' 4]}"
proof -
  assume g: "real_gid os = 502"
    and c: "environ os ''SSH_ORIGINAL_COMMAND'' = Some (''pre'' @ t)"
  have p: "take 3 (''pre'' @ t) = ''pre''" by simp
  note run = cmd_pre [OF g c p]
  have "filter is_strncmp (calls (snd (cmd_wrapper_main os 1))) =
          [Strncmp (Some (''pre'' @ t)) ''pre'' 3]"
    by (simp add: run phase_defs)
  moreover have "filter is_execl (calls (snd (cmd_wrapper_main os 1))) =
          [Execl ''/root/bin/rsnapshot-pre.sh'' [''rsnapshot-pre.sh'']]"
    by (simp add: run phase_defs)
  moreover have "execl_ok os ''/root/bin/rsnapshot-pre.sh'' \<longrightarrow>
      fst (cmd_wrapper_main os 1) =
        Image_Replaced ''/root/bin/rsnapshot-pre.sh'' [''rsnapshot-pre.sh'']"
    by (simp add: run)
  ultimately show ?thesis
    using cmd_strncmp_calls [of os' argc'] by blast
qed

theorem pre_prefix_selects_pre_action_witness:
  "real_gid (os_of 502 1000 (Some ''preempt'') True) = 502 \<and>
   environ (os_of 502 1000 (Some ''preempt'') True) ''SSH_ORIGINAL_COMMAND'' =
     Some (''pre'' @ ''empt'') \<and>
   execl_ok (os_of 502 1000 (Some ''preempt'') True) ''/root/bin/rsnapshot-pre.sh'' \<and>
   filter is_strncmp (calls (snd (cmd_wrapper_main (os_of 502 1000 (Some ''preempt'') True) 1))) =
     [Strncmp (Some ''preempt'') ''pre'' 3] \<and>
   filter is_execl (calls (snd (cmd_wrapper_main (os_of 502 1000 (Some ''preempt'') True) 1))) =
     [Execl ''/root/bin/rsnapshot-pre.sh'' [''rsnapshot-pre.sh'']] \<and>
   fst (cmd_wrapper_main (os_of 502 1000 (Some ''preempt'') True) 1) =
     Image_Replaced ''/root/bin/rsnapshot-pre.sh'' [''rsnapshot-pre.sh'']"
proof -
  have g: "real_gid (os_of 502 1000 (Some ''preempt'') True) = 502"
    by (simp add: os_of_def)
  have c: "environ (os_of 502 1000 (Some ''preempt'') True) ''SSH_ORIGINAL_COMMAND'' =
     Some (''pre'' @ ''empt'')"
    by (simp add: os_of_def)
  have ok: "execl_ok (os_of 502 1000 (Some ''preempt'') True) ''/root/bin/rsnapshot-pre.sh''"
    by (simp add: os_of_def)
  show ?thesis
    using g c ok pre_prefix_selects_pre_action [OF g c, of "os_of 502 1000 (Some ''preempt'') True" 1]
    by simp
qed

section \<open>The single-action dispatcher\<close>

text \<open>
  C7. Any two runs of \<^verbatim>\<open>rsync-wrapper\<close> that pass the authorization and the
  argument-count check make the same single \<^verbatim>\<open>execl\<close> call, that of
  \<^verbatim>\<open>/usr/bin/rsync\<close> with its seven fixed arguments, whatever else differs between
  them; and replacing the environment of a run by any other leaves the whole run as it is.
\<close>

theorem rsync_exec_is_fixed:
  "real_gid os1 = 502 \<Longrightarrow> real_gid os2 = 502 \<Longrightarrow>
   filter is_execl (calls (snd (rsync_wrapper_main os1 1))) =
     [Execl ''/usr/bin/rsync''
        [''rsync'', ''--server'', ''--sender'', ''-vlogDtprRe.iLsf'',
         ''--numeric-ids'', ''.'', ''/'']] \<and>
   filter is_execl (calls (snd (rsync_wrapper_main os2 1))) =
     filter is_execl (calls (snd (rsync_wrapper_main os1 1))) \<and>
   (execl_ok os1 ''/usr/bin/rsync'' \<and> execl_ok os2 ''/usr/bin/rsync'' \<longrightarrow>
      fst (rsync_wrapper_main os2 1) = fst (rsync_wrapper_main os1 1)) \<and>
   rsync_wrapper_main (os1\<lparr>environ := e\<rparr>) 1 = rsync_wrapper_main os1 1"
  by (simp add: rsync_exec rsync_environ_ignored phase_defs rsync_argv_def)

theorem rsync_exec_is_fixed_witness:
  "real_gid (os_of 502 1000 (Some ''pre'') True) = 502 \<and>
   real_gid (os_of 502 0 (Some ''rm -rf /'') True) = 502 \<and>
   execl_ok (os_of 502 1000 (Some ''pre'') True) ''/usr/bin/rsync'' \<and>
   execl_ok (os_of 502 0 (Some ''rm -rf /'') True) ''/usr/bin/rsync'' \<and>
   filter is_execl (calls (snd (rsync_wrapper_main (os_of 502 1000 (Some ''pre'') True) 1))) =
     [Execl ''/usr/bin/rsync''
        [''rsync'', ''--server'', ''--sender'', ''-vlogDtprRe.iLsf'',
         ''--numeric-ids'', ''.'', ''/'']] \<and>
   filter is_execl (calls (snd (rsync_wrapper_main (os_of 502 0 (Some ''rm -rf /'') True) 1))) =
     filter is_execl (calls (snd (rsync_wrapper_main (os_of 502 1000 (Some ''pre'') True) 1))) \<and>
   fst (rsync_wrapper_main (os_of 502 0 (Some ''rm -rf /'') True) 1) =
     fst (rsync_wrapper_main (os_of 502 1000 (Some ''pre'') True) 1)"
proof -
  have g1: "real_gid (os_of 502 1000 (Some ''pre'') True) = 502"
    by (simp add: os_of_def)
  have g2: "real_gid (os_of 502 0 (Some ''rm -rf /'') True) = 502"
    by (simp add: os_of_def)
  have ok: "execl_ok (os_of 502 1000 (Some ''pre'') True) ''/usr/bin/rsync'' \<and>
            execl_ok (os_of 502 0 (Some ''rm -rf /'') True) ''/usr/bin/rsync''"
    by (simp add: os_of_def)
  show ?thesis
    using g1 g2 ok rsync_exec_is_fixed [OF g1 g2]
    by simp
qed

section \<open>Return values of the privilege-changing calls\<close>

text \<open>
  C9. Neither dispatcher looks at what \<^verbatim>\<open>setegid\<close>, \<^verbatim>\<open>seteuid\<close>, \<^verbatim>\<open>setgid\<close> and
  \<^verbatim>\<open>setuid\<close> return: replacing the values these calls return by any others leaves the
  whole run unchanged (its end, every call and every message), and a run that passes the
  checks goes on to its \<^verbatim>\<open>execl\<close> call whatever they return.
\<close>

theorem setid_results_never_inspected:
  "cmd_wrapper_main (os\<lparr>setid_ret := r\<rparr>) argc = cmd_wrapper_main os argc \<and>
   rsync_wrapper_main (os\<lparr>setid_ret := r\<rparr>) argc = rsync_wrapper_main os argc \<and>
   (real_gid os = 502 \<longrightarrow>
      Execl ''/usr/bin/rsync'' rsync_argv
        \<in> set (calls (snd (rsync_wrapper_main (os\<lparr>setid_ret := r\<rparr>) 1)))) \<and>
   (real_gid os = 502 \<and> environ os ''SSH_ORIGINAL_COMMAND'' = Some s \<and>
    take 3 s = ''pre'' \<longrightarrow>
      Execl ''/root/bin/rsnapshot-pre.sh'' [''rsnapshot-pre.sh'']
        \<in> set (calls (snd (cmd_wrapper_main (os\<lparr>setid_ret := r\<rparr>) 1)))) \<and>
   (real_gid os = 502 \<and> environ os ''SSH_ORIGINAL_COMMAND'' = Some s \<and>
    take 3 s \<noteq> ''pre'' \<and> take 4 s = ''post'' \<longrightarrow>
      Execl ''/root/bin/rsnapshot-post.sh'' [''rsnapshot-post.sh'']
        \<in> set (calls (snd (cmd_wrapper_main (os\<lparr>setid_ret := r\<rparr>) 1))))"
  by (simp add: cmd_setid_ret_ignored rsync_setid_ret_ignored rsync_exec cmd_pre cmd_post)

theorem setid_results_never_inspected_witness:
  "cmd_wrapper_main (os_of 502 1000 (Some ''pre'') True \<lparr>setid_ret := \<lambda>t c. - 1\<rparr>) 1 =
     cmd_wrapper_main (os_of 502 1000 (Some ''pre'') True) 1 \<and>
   rsync_wrapper_main (os_of 502 1000 (Some ''pre'') True \<lparr>setid_ret := \<lambda>t c. - 1\<rparr>) 1 =
     rsync_wrapper_main (os_of 502 1000 (Some ''pre'') True) 1 \<and>
   real_gid (os_of 502 1000 (Some ''pre'') True) = 502 \<and>
   environ (os_of 502 1000 (Some ''pre'') True) ''SSH_ORIGINAL_COMMAND'' = Some ''pre'' \<and>
   take 3 ''pre'' = ''pre'' \<and>
   Execl ''/usr/bin/rsync'' rsync_argv
     \<in> set (calls (snd (rsync_wrapper_main
          (os_of 502 1000 (Some ''pre'') True \<lparr>setid_ret := \<lambda>t c. - 1\<rparr>) 1))) \<and>
   Execl ''/root/bin/rsnapshot-pre.sh'' [''rsnapshot-pre.sh'']
     \<in> set (calls (snd (cmd_wrapper_main
          (os_of 502 1000 (Some ''pre'') True \<lparr>setid_ret := \<lambda>t c. - 1\<rparr>) 1)))"
proof -
  have g: "real_gid (os_of 502 1000 (Some ''pre'') True) = 502"
    by (simp add: os_of_def)
  have c: "environ (os_of 502 1000 (Some ''pre'') True) ''SSH_ORIGINAL_COMMAND'' = Some ''pre''"
    by (simp add: os_of_def)
  have p: "take 3 ''pre'' = ''pre''"
    by simp
  show ?thesis
    using g c p
      setid_results_never_inspected
        [where os = "os_of 502 1000 (Some ''pre'') True" and r = "\<lambda>t c. - 1"
           and argc = 1 and s = "''pre''"]
    by blast
qed

section \<open>Validation and the return to root\<close>

text \<open>
  C1, as stated, fails. \<^verbatim>\<open>cmd-wrapper.c\<close> returns to root (lines 60 to 63) before it
  looks at the command string (lines 69 to 81): with real group id 502, \<^verbatim>\<open>argc\<close> 1 and
  the command \<^verbatim>\<open>bogus\<close>, the run ends in the validation failure \<^verbatim>\<open>exit(1)\<close> after
  \<^verbatim>\<open>setegid(0)\<close>, \<^verbatim>\<open>seteuid(0)\<close>, \<^verbatim>\<open>setgid(0)\<close> and \<^verbatim>\<open>setuid(0)\<close> have all been
  called.
\<close>

theorem validation_exit_after_escalation:
  "cmd_wrapper_main (os_of 502 1000 (Some ''bogus'') True) 1 =
     (Exited 1,
      \<lparr>calls = [Getenv ''SSH_ORIGINAL_COMMAND'', Getgid, Getgid, Setegid 502, Getuid,
                 Seteuid 1000, Setegid 0, Seteuid 0, Setgid 0, Setuid 0,
                 Strncmp (Some ''bogus'') ''pre'' 3, Strncmp (Some ''bogus'') ''post'' 4,
                 Printf ''ERROR: Invalid command: %s\<newline>'' [Some ''bogus''],
                 Printf ''Usage: COMMAND [pre|post]\<newline>'' [], Exit 1],
       gid = 502\<rparr>)"
  using cmd_invalid [of "os_of 502 1000 (Some ''bogus'') True" "''bogus''"]
  by (simp add: os_of_def phase_defs)

text \<open>
  C1, amended. In the dual-mode dispatcher a usage failure (wrong \<^verbatim>\<open>argc\<close>) ends in
  \<^verbatim>\<open>exit(1)\<close> with only the two calls of the drop made, before any call of the return to
  root. The command string is looked at after the return to root: the first ten calls of
  every run that passes the authorization and the argument-count check are the lookup of
  the variable, the drop and the four calls \<^verbatim>\<open>setegid(0)\<close>, \<^verbatim>\<open>seteuid(0)\<close>,
  \<^verbatim>\<open>setgid(0)\<close>, \<^verbatim>\<open>setuid(0)\<close>, and a command that matches neither prefix ends in
  \<^verbatim>\<open>exit(1)\<close> after these four calls and the two comparisons.
\<close>

theorem usage_exit_before_and_validation_after_escalation:
  "(real_gid os = 502 \<and> argc \<noteq> 1 \<longrightarrow>
      fst (cmd_wrapper_main os argc) = Exited 1 \<and>
      filter is_setid (calls (snd (cmd_wrapper_main os argc))) =
        [Setegid (real_gid os), Seteuid (real_uid os)] \<and>
      filter is_strncmp (calls (snd (cmd_wrapper_main os argc))) = []) \<and>
   (real_gid os = 502 \<longrightarrow>
      take 10 (calls (snd (cmd_wrapper_main os 1))) =
        [Getenv ''SSH_ORIGINAL_COMMAND'', Getgid, Getgid, Setegid (real_gid os), Getuid,
         Seteuid (real_uid os), Setegid 0, Seteuid 0, Setgid 0, Setuid 0]) \<and>
   (real_gid os = 502 \<and> environ os ''SSH_ORIGINAL_COMMAND'' = Some s \<and>
    take 3 s \<noteq> ''pre'' \<and> take 4 s \<noteq> ''post'' \<longrightarrow>
      cmd_wrapper_main os 1 =
        (Exited 1,
         \<lparr>calls = [Getenv ''SSH_ORIGINAL_COMMAND'', Getgid, Getgid, Setegid (real_gid os),
                    Getuid, Seteuid (real_uid os), Setegid 0, Seteuid 0, Setgid 0, Setuid 0,
                    Strncmp (Some s) ''pre'' 3, Strncmp (Some s) ''post'' 4,
                    Printf ''ERROR: Invalid command: %s\<newline>'' [Some s],
                    Printf ''Usage: COMMAND [pre|post]\<newline>'' [], Exit 1],
          gid = 502\<rparr>))"
proof -
  have first_ten: "take 10 (calls (snd (cmd_wrapper_main os 1))) =
        [Getenv ''SSH_ORIGINAL_COMMAND'', Getgid, Getgid, Setegid (real_gid os), Getuid,
         Seteuid (real_uid os), Setegid 0, Seteuid 0, Setgid 0, Setuid 0]"
    if g: "real_gid os = 502"
  proof -
    from cmd_reaches_escalation [OF g] obtain rest where
      "calls (snd (cmd_wrapper_main os 1)) =
         Getenv ''SSH_ORIGINAL_COMMAND'' # drop_calls os @ escalate_calls @ rest"
      by blast
    then show ?thesis by (simp add: phase_defs)
  qed
  show ?thesis
    by (simp add: cmd_usage cmd_invalid first_ten phase_defs)
qed

theorem usage_exit_before_and_validation_after_escalation_witness:
  "real_gid (os_of 502 1000 (Some ''bogus'') True) = 502 \<and> (2::int) \<noteq> 1 \<and>
   environ (os_of 502 1000 (Some ''bogus'') True) ''SSH_ORIGINAL_COMMAND'' = Some ''bogus'' \<and>
   take 3 ''bogus'' \<noteq> ''pre'' \<and> take 4 ''bogus'' \<noteq> ''post'' \<and>
   fst (cmd_wrapper_main (os_of 502 1000 (Some ''bogus'') True) 2) = Exited 1 \<and>
   filter is_setid (calls (snd (cmd_wrapper_main (os_of 502 1000 (Some ''bogus'') True) 2))) =
     [Setegid 502, Seteuid 1000] \<and>
   filter is_strncmp (calls (snd (cmd_wrapper_main (os_of 502 1000 (Some ''bogus'') True) 2))) = [] \<and>
   take 10 (calls (snd (cmd_wrapper_main (os_of 502 1000 (Some ''bogus'') True) 1))) =
     [Getenv ''SSH_ORIGINAL_COMMAND'', Getgid, Getgid, Setegid 502, Getuid,
      Seteuid 1000, Setegid 0, Seteuid 0, Setgid 0, Setuid 0] \<and>
   fst (cmd_wrapper_main (os_of 502 1000 (Some ''bogus'') True) 1) = Exited 1"
proof -
  have g: "real_gid (os_of 502 1000 (Some ''bogus'') True) = 502"
    by (simp add: os_of_def)
  have c: "environ (os_of 502 1000 (Some ''bogus'') True) ''SSH_ORIGINAL_COMMAND'' = Some ''bogus''"
    by (simp add: os_of_def)
  have u: "real_uid (os_of 502 1000 (Some ''bogus'') True) = 1000"
    by (simp add: os_of_def)
  have p: "take 3 ''bogus'' \<noteq> ''pre'' \<and> take 4 ''bogus'' \<noteq> ''post''"
    by simp
  show ?thesis
    using g c p
      usage_exit_before_and_validation_after_escalation
        [where os = "os_of 502 1000 (Some ''bogus'') True" and argc = 2 and s = "''bogus''"]
    by (simp add: u)
qed

section \<open>A command that begins with post\<close>

text \<open>
  C5, as stated, fails: with real group id 502, \<^verbatim>\<open>argc\<close> 1 and the command
  \<^verbatim>\<open>posterior\<close> the run does not end in \<^verbatim>\<open>exit(1)\<close>. The first four bytes of the
  command are \<^verbatim>\<open>post\<close>, so \<^verbatim>\<open>strncmp(origcmd, "post", 4)\<close> is 0 and the post script is
  executed.
\<close>

theorem posterior_is_not_rejected:
  "fst (cmd_wrapper_main (os_of 502 1000 (Some ''posterior'') True) 1) \<noteq> Exited 1 \<and>
   fst (cmd_wrapper_main (os_of 502 1000 (Some ''posterior'') True) 1) =
     Image_Replaced ''/root/bin/rsnapshot-post.sh'' [''rsnapshot-post.sh'']"
  using cmd_post [of "os_of 502 1000 (Some ''posterior'') True" "''posterior''"]
  by (simp add: os_of_def)

text \<open>
  C5, amended. With real group id 502, \<^verbatim>\<open>argc\<close> 1 and the command \<^verbatim>\<open>posterior\<close>, the
  command is accepted as a selector of the post action: it is compared against
  \<^verbatim>\<open>pre\<close>, then against \<^verbatim>\<open>post\<close>, the only \<^verbatim>\<open>execl\<close> call is that of
  \<^verbatim>\<open>/root/bin/rsnapshot-post.sh\<close> with the argument vector \<^verbatim>\<open>rsnapshot-post.sh\<close>
  alone, and when that call succeeds the process image is this program.
\<close>

theorem posterior_selects_post_action:
  "real_gid os = 502 \<Longrightarrow> environ os ''SSH_ORIGINAL_COMMAND'' = Some ''posterior'' \<Longrightarrow>
   filter is_strncmp (calls (snd (cmd_wrapper_main os 1))) =
     [Strncmp (Some ''posterior'') ''pre'' 3, Strncmp (Some ''posterior'') ''post'' 4] \<and>
   filter is_execl (calls (snd (cmd_wrapper_main os 1))) =
     [Execl ''/root/bin/rsnapshot-post.sh'' [''rsnapshot-post.sh'']] \<and>
   (execl_ok os ''/root/bin/rsnapshot-post.sh'' \<longrightarrow>
      fst (cmd_wrapper_main os 1) =
        Image_Replaced ''/root/bin/rsnapshot-post.sh'' [''rsnapshot-post.sh''])"
proof -
  assume g: "real_gid os = 502"
    and c: "environ os ''SSH_ORIGINAL_COMMAND'' = Some ''posterior''"
  have "take 3 ''posterior'' \<noteq> ''pre''" and "take 4 ''posterior'' = ''post''"
    by simp_all
  note run = cmd_post [OF g c this]
  show ?thesis by (simp add: run phase_defs)
qed

theorem posterior_selects_post_action_witness:
  "real_gid (os_of 502 1000 (Some ''posterior'') True) = 502 \<and>
   environ (os_of 502 1000 (Some ''posterior'') True) ''SSH_ORIGINAL_COMMAND'' =
     Some ''posterior'' \<and>
   execl_ok (os_of 502 1000 (Some ''posterior'') True) ''/root/bin/rsnapshot-post.sh'' \<and>
   filter is_strncmp (calls (snd (cmd_wrapper_main (os_of 502 1000 (Some ''posterior'') True) 1))) =
     [Strncmp (Some ''posterior'') ''pre'' 3, Strncmp (Some ''posterior'') ''post'' 4] \<and>
   filter is_execl (calls (snd (cmd_wrapper_main (os_of 502 1000 (Some ''posterior'') True) 1))) =
     [Execl ''/root/bin/rsnapshot-post.sh'' [''rsnapshot-post.sh'']]"
proof -
  have g: "real_gid (os_of 502 1000 (Some ''posterior'') True) = 502"
    by (simp add: os_of_def)
  have c: "environ (os_of 502 1000 (Some ''posterior'') True) ''SSH_ORIGINAL_COMMAND'' =
     Some ''posterior''"
    by (simp add: os_of_def)
  have ok: "execl_ok (os_of 502 1000 (Some ''posterior'') True) ''/root/bin/rsnapshot-post.sh''"
    by (simp add: os_of_def)
  show ?thesis
    using g c ok posterior_selects_post_action [OF g c] by simp
qed

section \<open>A failed execl\<close>

text \<open>
  C2 at a failing input. With real group id 502, \<^verbatim>\<open>argc\<close> 1 and an \<^verbatim>\<open>execl\<close> that
  fails, both dispatchers call \<^verbatim>\<open>perror\<close> and attempt nothing else, but then reach the
  final \<^verbatim>\<open>exit(0)\<close>: the exit code is 0, where every other failure of the same
  \<^verbatim>\<open>main\<close> ends in \<^verbatim>\<open>exit(1)\<close>.
\<close>

theorem execl_failure_exits_0:
  "cmd_wrapper_main (os_of 502 1000 (Some ''pre'') False) 1 =
     (Exited 0,
      \<lparr>calls = [Getenv ''SSH_ORIGINAL_COMMAND'', Getgid, Getgid, Setegid 502, Getuid,
                 Seteuid 1000, Setegid 0, Seteuid 0, Setgid 0, Setuid 0,
                 Strncmp (Some ''pre'') ''pre'' 3,
                 Execl ''/root/bin/rsnapshot-pre.sh'' [''rsnapshot-pre.sh''],
                 Perror ''Execl:'', Exit 0],
       gid = 502\<rparr>) \<and>
   rsync_wrapper_main (os_of 502 1000 None False) 1 =
     (Exited 0,
      \<lparr>calls = [Getgid, Getgid, Setegid 502, Getuid, Seteuid 1000,
                 Setegid 0, Seteuid 0, Setgid 0, Setuid 0,
                 Execl ''/usr/bin/rsync''
                   [''rsync'', ''--server'', ''--sender'', ''-vlogDtprRe.iLsf'',
                    ''--numeric-ids'', ''.'', ''/''],
                 Perror ''Execl:'', Exit 0],
       gid = 502\<rparr>)"
  using cmd_pre [of "os_of 502 1000 (Some ''pre'') False" "''pre''"]
    rsync_exec [of "os_of 502 1000 None False"]
  by (simp add: os_of_def phase_defs rsync_argv_def)

section \<open>An absent command\<close>

text \<open>
  C3 at a failing input. With real group id 502, \<^verbatim>\<open>argc\<close> 1 and
  \<^verbatim>\<open>SSH_ORIGINAL_COMMAND\<close> not set, \<^verbatim>\<open>getenv\<close> returns the null pointer and
  \<^verbatim>\<open>cmd-wrapper\<close>, back at root identity, hands it to \<^verbatim>\<open>strncmp\<close>: the run ends in
  the read through the null pointer, not in \<^verbatim>\<open>exit(1)\<close>.
\<close>

theorem absent_command_reaches_strncmp:
  "cmd_wrapper_main (os_of 502 1000 None True) 1 =
     (Null_Dereference,
      \<lparr>calls = [Getenv ''SSH_ORIGINAL_COMMAND'', Getgid, Getgid, Setegid 502, Getuid,
                 Seteuid 1000, Setegid 0, Seteuid 0, Setgid 0, Setuid 0,
                 Strncmp None ''pre'' 3],
       gid = 502\<rparr>)"
  using cmd_null [of "os_of 502 1000 None True"]
  by (simp add: os_of_def phase_defs)

end
